theory Spec2Isabelle
  imports Main "HOL-Library.Sublist"
begin

section \<open>Parsed JSON and the Python operations the handler applies to it\<close>

text \<open>
  The handler of \<^verbatim>\<open>lambda_function.py\<close> works on values produced by
  \<^verbatim>\<open>json.loads\<close>: \<^verbatim>\<open>None\<close>, booleans, numbers, strings, lists and dicts.
  A dict is an association list read with \<open>map_of\<close> (the parser leaves one entry per
  key). Numbers are integers here: every operation the handler applies to a number raises
  the same \<^verbatim>\<open>TypeError\<close> whatever the number, and a number never equals a string.
  Strings are byte lists (UTF-8); substring search and equality agree with Python's on
  code points.
\<close>

datatype json =
    JNull
  | JBool bool
  | JNum int
  | JStr string
  | JArr "json list"
  | JObj "(string \<times> json) list"

datatype error =
    KeyError
  | TypeError
  | UnboundLocalError
  | LoaderFailure
  | PublisherFailure

text \<open>\<^verbatim>\<open>k in x\<close> for a string literal \<open>k\<close>: key membership on a dict, substring on a
  string, element membership on a list, \<^verbatim>\<open>TypeError\<close> on anything else.\<close>

fun py_in :: "string \<Rightarrow> json \<Rightarrow> error + bool" where
  "py_in k (JObj kvs) = Inr (map_of kvs k \<noteq> None)"
| "py_in k (JStr s) = Inr (sublist k s)"
| "py_in k (JArr xs) = Inr (JStr k \<in> set xs)"
| "py_in k JNull = Inl TypeError"
| "py_in k (JBool b) = Inl TypeError"
| "py_in k (JNum n) = Inl TypeError"

text \<open>\<^verbatim>\<open>x[k]\<close> for a string literal \<open>k\<close>: \<^verbatim>\<open>KeyError\<close> on a dict without the key,
  \<^verbatim>\<open>TypeError\<close> on every value that is not a dict (strings and lists take integer
  indices only).\<close>

fun py_getitem :: "json \<Rightarrow> string \<Rightarrow> error + json" where
  "py_getitem (JObj kvs) k = (case map_of kvs k of None \<Rightarrow> Inl KeyError | Some v \<Rightarrow> Inr v)"
| "py_getitem JNull k = Inl TypeError"
| "py_getitem (JBool b) k = Inl TypeError"
| "py_getitem (JNum n) k = Inl TypeError"
| "py_getitem (JStr s) k = Inl TypeError"
| "py_getitem (JArr xs) k = Inl TypeError"

text \<open>\<^verbatim>\<open>for v in x\<close>: the elements of a list, the one-character strings of a string, the
  keys of a dict; \<^verbatim>\<open>TypeError\<close> otherwise.\<close>

fun py_iter :: "json \<Rightarrow> error + json list" where
  "py_iter (JArr xs) = Inr xs"
| "py_iter (JStr s) = Inr (map (\<lambda>c. JStr [c]) s)"
| "py_iter (JObj kvs) = Inr (map (\<lambda>kv. JStr (fst kv)) kvs)"
| "py_iter JNull = Inl TypeError"
| "py_iter (JBool b) = Inl TypeError"
| "py_iter (JNum n) = Inl TypeError"

text \<open>\<^verbatim>\<open>if not isinstance(v, list): v = [v]\<close>\<close>

fun as_list :: "json \<Rightarrow> json list" where
  "as_list (JArr xs) = xs"
| "as_list v = [v]"

text \<open>A value used where Python needs a \<^verbatim>\<open>str\<close> (concatenation with \<^verbatim>\<open>+\<close>, the
  argument of \<^verbatim>\<open>replace\<close>, an element given to \<^verbatim>\<open>join\<close>).\<close>

fun as_str :: "json \<Rightarrow> error + string" where
  "as_str (JStr s) = Inr s"
| "as_str v = Inl TypeError"

fun strs_of :: "json list \<Rightarrow> error + string list" where
  "strs_of [] = Inr []"
| "strs_of (v # vs) =
     (case as_str v of
        Inl e \<Rightarrow> Inl e
      | Inr s \<Rightarrow> (case strs_of vs of Inl e \<Rightarrow> Inl e | Inr ss \<Rightarrow> Inr (s # ss)))"

text \<open>\<^verbatim>\<open>sep.join(xs)\<close> on strings.\<close>

fun py_join :: "string \<Rightarrow> string list \<Rightarrow> string" where
  "py_join sep [] = []"
| "py_join sep [x] = x"
| "py_join sep (x # y # ys) = x @ sep @ py_join sep (y # ys)"

text \<open>\<^verbatim>\<open>s.replace(old, new)\<close>: every non-overlapping occurrence, left to right.\<close>

fun py_replace :: "string \<Rightarrow> string \<Rightarrow> string \<Rightarrow> string" where
  "py_replace old new [] = (if old = [] then new else [])"
| "py_replace old new (c # cs) =
     (if old = [] then new @ c # py_replace old new cs
      else if prefix old (c # cs) then new @ py_replace old new (drop (length old - 1) cs)
      else c # py_replace old new cs)"

section \<open>Environment and effects\<close>

text \<open>
  The handler reads the topic from the process environment, fetches and decodes one log
  object (\<^verbatim>\<open>load_json(s3_client.get_object(...))\<close>), prints, and publishes to SNS.
  The two network calls and the \<^verbatim>\<open>str()\<close> rendering of a record are parameters:
  \<open>fetch_log b k\<close> is the decoded log stored under bucket \<open>b\<close> and key \<open>k\<close>, or
  \<open>None\<close> when the object cannot be fetched or decoded; \<open>publish_ok\<close> tells whether
  the publish call with that topic, subject and message goes through. A call that fails
  aborts the invocation. A run yields the effects it performed, in order, and the
  exception that ended it, if any.
\<close>

record env =
  sns_topic_arn :: string
  fetch_log :: "string \<Rightarrow> string \<Rightarrow> json option"
  publish_ok :: "string \<Rightarrow> string \<Rightarrow> string \<Rightarrow> bool"
  str_of :: "json \<Rightarrow> string"

datatype effect =
    Print string
  | GetObject string string
  | Publish string string string

type_synonym outcome = "effect list \<times> error option"

definition sns_subject :: string where
  "sns_subject = ''Public S3 bucket/object alert''"

definition sns_message :: string where
  "sns_message =
     ''User {{user}} via {{invoke}} call has just {{bucket_or_object}} with {{operations}} public access''"

definition all_users :: string where
  "all_users = ''/global/AllUsers''"

section \<open>Alert composer\<close>

text \<open>\<^verbatim>\<open>get_object_arn\<close> (lines 145 to 150): the loop over \<^verbatim>\<open>record['resources']\<close>
  is \<open>scan_resources\<close>; \<^verbatim>\<open>None\<close> is \<open>JNull\<close>.\<close>

fun scan_resources :: "json list \<Rightarrow> error + json" where
  "scan_resources [] = Inr JNull"
| "scan_resources (resource # rest) =
     (case py_getitem resource ''type'' of
        Inl e \<Rightarrow> Inl e
      | Inr t \<Rightarrow>
          if t = JStr ''AWS::S3::Object'' then py_getitem resource ''ARN''
          else scan_resources rest)"

definition get_object_arn :: "json \<Rightarrow> error + json" where
  "get_object_arn record =
     (case py_in ''resources'' record of
        Inl e \<Rightarrow> Inl e
      | Inr present \<Rightarrow>
          if present then
            (case py_getitem record ''resources'' of
               Inl e \<Rightarrow> Inl e
             | Inr rs \<Rightarrow> (case py_iter rs of Inl e \<Rightarrow> Inl e | Inr xs \<Rightarrow> scan_resources xs))
          else Inr JNull)"

text \<open>\<^verbatim>\<open>get_invoke_form\<close> (lines 153 to 159).\<close>

definition get_invoke_form :: "json \<Rightarrow> error + string" where
  "get_invoke_form record =
     (case py_getitem record ''userAgent'' of
        Inl e \<Rightarrow> Inl e
      | Inr ua \<Rightarrow>
          Inr (if ua = JStr ''signin.amazonaws.com'' \<or> ua = JStr ''console.amazonaws.com''
               then ''Console''
               else if ua = JStr ''lambda.amazonaws.com'' then ''Lambda''
               else ''API''))"

text \<open>\<^verbatim>\<open>get_public_access\<close> (lines 162 to 168).\<close>

definition get_public_access :: "bool \<Rightarrow> bool \<Rightarrow> string" where
  "get_public_access public_write public_read =
     py_join '' and ''
       ((if public_read then [''READ''] else []) @ (if public_write then [''WRITE''] else []))"

text \<open>\<^verbatim>\<open>get_resource_access\<close> (lines 171 to 186); \<^verbatim>\<open>join\<close> raises
  \<^verbatim>\<open>TypeError\<close> on an element that is not a string.\<close>

definition get_resource_access :: "string \<Rightarrow> json \<Rightarrow> json \<Rightarrow> error + string" where
  "get_resource_access event_name bucket_name object_arn =
     (let verb = (if event_name = ''CreateBucket'' \<or> event_name = ''PutObject''
                  then ''created'' else ''changed'');
          messages = JStr verb #
            (if object_arn \<noteq> JNull then [object_arn, JStr ''at bucket'', bucket_name]
             else [JStr ''bucket'', bucket_name])
      in case strs_of messages of Inl e \<Rightarrow> Inl e | Inr ss \<Rightarrow> Inr (py_join '' '' ss))"

text \<open>\<^verbatim>\<open>publish_alert\<close> (lines 121 to 142): four reads of the record, the first
  print, the four replacements in the template, the second print, the publish call.\<close>

definition publish_alert :: "env \<Rightarrow> json \<Rightarrow> string \<Rightarrow> bool \<Rightarrow> bool \<Rightarrow> outcome" where
  "publish_alert \<E> record event_name public_write public_read =
     (case py_getitem record ''userIdentity'' of
        Inl e \<Rightarrow> ([], Some e)
      | Inr ident \<Rightarrow>
     (case py_getitem ident ''userName'' of
        Inl e \<Rightarrow> ([], Some e)
      | Inr user_name \<Rightarrow>
     (case get_invoke_form record of
        Inl e \<Rightarrow> ([], Some e)
      | Inr invoke_form \<Rightarrow>
     (case py_getitem record ''requestParameters'' of
        Inl e \<Rightarrow> ([], Some e)
      | Inr params \<Rightarrow>
     (case py_getitem params ''bucketName'' of
        Inl e \<Rightarrow> ([], Some e)
      | Inr bucket_name \<Rightarrow>
     (case get_object_arn record of
        Inl e \<Rightarrow> ([], Some e)
      | Inr object_arn \<Rightarrow>
     (let found = Print (''Found public S3 event ['' @ event_name @ ''] on record [''
                           @ str_of \<E> record @ '']'')
      in
     (case as_str user_name of
        Inl e \<Rightarrow> ([found], Some e)
      | Inr user \<Rightarrow>
     (case get_resource_access event_name bucket_name object_arn of
        Inl e \<Rightarrow> ([found], Some e)
      | Inr resource \<Rightarrow>
     (let pub_message =
            py_replace ''{{bucket_or_object}}'' resource
              (py_replace ''{{operations}}'' (get_public_access public_write public_read)
                (py_replace ''{{invoke}}'' invoke_form
                  (py_replace ''{{user}}'' user sns_message)));
          sent = Print (''Alert ['' @ pub_message @ ''] sent to SNS topic [''
                          @ sns_topic_arn \<E> @ '']'')
      in if publish_ok \<E> (sns_topic_arn \<E>) sns_subject pub_message
         then ([found, sent, Publish (sns_topic_arn \<E>) sns_subject pub_message], None)
         else ([found, sent], Some PublisherFailure)))))))))))"

section \<open>Access classifier\<close>

text \<open>
  Each handler of the source computes the two flags and then, when one of them is set,
  calls \<^verbatim>\<open>publish_alert\<close>. The flag computation (the body up to the final
  \<^verbatim>\<open>if\<close>) is \<open>handle_create_flags\<close> and \<open>handle_change_flags\<close>; it returns the
  pair \<open>(public_read, public_write)\<close>.
\<close>

subsection \<open>Rule A: \<^verbatim>\<open>handle_create\<close>\<close>

text \<open>The loop over \<^verbatim>\<open>acl_headers\<close>.\<close>

fun scan_acl_headers :: "json list \<Rightarrow> bool \<times> bool \<Rightarrow> bool \<times> bool" where
  "scan_acl_headers [] flags = flags"
| "scan_acl_headers (acl_header # rest) (public_read, public_write) =
     scan_acl_headers rest
       (if acl_header = JStr ''public-read'' \<or> acl_header = JStr ''public-read-write''
        then True else public_read,
        if acl_header = JStr ''public-read-write'' then True else public_write)"

text \<open>One condition \<^verbatim>\<open>name in acl and '/global/AllUsers' in acl[name]\<close>.\<close>

definition grant_header :: "json \<Rightarrow> string \<Rightarrow> error + bool" where
  "grant_header acl name =
     (case py_in name acl of
        Inl e \<Rightarrow> Inl e
      | Inr present \<Rightarrow>
          if present then
            (case py_getitem acl name of Inl e \<Rightarrow> Inl e | Inr v \<Rightarrow> py_in all_users v)
          else Inr False)"

text \<open>The four conditions on \<^verbatim>\<open>accessControlList\<close>, in the order of the source.\<close>

definition scan_grant_headers :: "json \<Rightarrow> bool \<times> bool \<Rightarrow> error + bool \<times> bool" where
  "scan_grant_headers acl flags =
     (case grant_header acl ''x-amz-grant-read'' of
        Inl e \<Rightarrow> Inl e
      | Inr h1 \<Rightarrow>
     (case grant_header acl ''x-amz-grant-read-acp'' of
        Inl e \<Rightarrow> Inl e
      | Inr h2 \<Rightarrow>
     (case grant_header acl ''x-amz-grant-write'' of
        Inl e \<Rightarrow> Inl e
      | Inr h3 \<Rightarrow>
     (case grant_header acl ''x-amz-grant-write-acp'' of
        Inl e \<Rightarrow> Inl e
      | Inr h4 \<Rightarrow>
          Inr (if h1 \<or> h2 then True else fst flags,
               if h3 \<or> h4 then True else snd flags)))))"

definition handle_create_flags :: "json \<Rightarrow> error + bool \<times> bool" where
  "handle_create_flags record =
     (case py_getitem record ''requestParameters'' of
        Inl e \<Rightarrow> Inl e
      | Inr params \<Rightarrow>
     (case py_in ''x-amz-acl'' params of
        Inl e \<Rightarrow> Inl e
      | Inr has_acl \<Rightarrow>
     (case (if has_acl then
              (case py_getitem params ''x-amz-acl'' of
                 Inl e \<Rightarrow> Inl e
               | Inr acl_headers \<Rightarrow> Inr (scan_acl_headers (as_list acl_headers) (False, False)))
            else Inr (False, False)) of
        Inl e \<Rightarrow> Inl e
      | Inr flags \<Rightarrow>
     (case py_in ''accessControlList'' params of
        Inl e \<Rightarrow> Inl e
      | Inr has_list \<Rightarrow>
          if has_list then
            (case py_getitem params ''accessControlList'' of
               Inl e \<Rightarrow> Inl e
             | Inr acl \<Rightarrow> scan_grant_headers acl flags)
          else Inr flags))))"

definition handle_create :: "env \<Rightarrow> json \<Rightarrow> string \<Rightarrow> outcome" where
  "handle_create \<E> record event_name =
     (case handle_create_flags record of
        Inl e \<Rightarrow> ([], Some e)
      | Inr (public_read, public_write) \<Rightarrow>
          if public_read \<or> public_write
          then publish_alert \<E> record event_name public_write public_read
          else ([], None))"

subsection \<open>Rule B: \<^verbatim>\<open>handle_change\<close>\<close>

text \<open>The body of the loop over \<^verbatim>\<open>grant_list\<close>, for one grant.\<close>

definition scan_grant :: "json \<Rightarrow> bool \<times> bool \<Rightarrow> error + bool \<times> bool" where
  "scan_grant grantee flags =
     (case py_in ''Grantee'' grantee of
        Inl e \<Rightarrow> Inl e
      | Inr has_grantee \<Rightarrow>
          if \<not> has_grantee then Inr flags
          else
     (case py_getitem grantee ''Grantee'' of
        Inl e \<Rightarrow> Inl e
      | Inr g \<Rightarrow>
     (case py_in ''URI'' g of
        Inl e \<Rightarrow> Inl e
      | Inr has_uri \<Rightarrow>
          if \<not> has_uri then Inr flags
          else
     (case py_getitem g ''URI'' of
        Inl e \<Rightarrow> Inl e
      | Inr uri \<Rightarrow>
     (case py_in all_users uri of
        Inl e \<Rightarrow> Inl e
      | Inr is_all_users \<Rightarrow>
          if \<not> is_all_users then Inr flags
          else
     (case py_getitem grantee ''Permission'' of
        Inl e \<Rightarrow> Inl e
      | Inr permission \<Rightarrow>
          if permission = JStr ''READ'' \<or> permission = JStr ''READ_ACP''
          then Inr (True, snd flags)
          else if permission = JStr ''WRITE'' \<or> permission = JStr ''WRITE_ACP''
          then Inr (fst flags, True)
          else Inr flags))))))"

fun scan_grants :: "json list \<Rightarrow> bool \<times> bool \<Rightarrow> error + bool \<times> bool" where
  "scan_grants [] flags = Inr flags"
| "scan_grants (grantee # rest) flags =
     (case scan_grant grantee flags of
        Inl e \<Rightarrow> Inl e
      | Inr flags' \<Rightarrow> scan_grants rest flags')"

text \<open>\<^verbatim>\<open>record['requestParameters']['AccessControlPolicy']['AccessControlList']['Grant']\<close>\<close>

definition grant_list_of :: "json \<Rightarrow> error + json" where
  "grant_list_of params =
     (case py_getitem params ''AccessControlPolicy'' of
        Inl e \<Rightarrow> Inl e
      | Inr policy \<Rightarrow>
     (case py_getitem policy ''AccessControlList'' of
        Inl e \<Rightarrow> Inl e
      | Inr acl \<Rightarrow> py_getitem acl ''Grant''))"

definition handle_change_flags :: "json \<Rightarrow> error + bool \<times> bool" where
  "handle_change_flags record =
     (case py_getitem record ''requestParameters'' of
        Inl e \<Rightarrow> Inl e
      | Inr params \<Rightarrow>
     (case py_in ''AccessControlPolicy'' params of
        Inl e \<Rightarrow> Inl e
      | Inr has_policy \<Rightarrow>
          if has_policy then
            (case grant_list_of params of
               Inl e \<Rightarrow> Inl e
             | Inr grant_list \<Rightarrow> scan_grants (as_list grant_list) (False, False))
          else Inr (False, False)))"

definition handle_change :: "env \<Rightarrow> json \<Rightarrow> string \<Rightarrow> outcome" where
  "handle_change \<E> record event_name =
     (case handle_change_flags record of
        Inl e \<Rightarrow> ([], Some e)
      | Inr (public_read, public_write) \<Rightarrow>
          if public_read \<or> public_write
          then publish_alert \<E> record event_name public_write public_read
          else ([], None))"

section \<open>Dispatch loop and entry point\<close>

text \<open>The body of the loop over the records of the fetched log.\<close>

definition dispatch_record :: "env \<Rightarrow> json \<Rightarrow> outcome" where
  "dispatch_record \<E> record =
     (case py_getitem record ''eventSource'' of
        Inl e \<Rightarrow> ([], Some e)
      | Inr source \<Rightarrow>
          if source \<noteq> JStr ''s3.amazonaws.com'' then ([], None)
          else
     (case py_in ''requestParameters'' record of
        Inl e \<Rightarrow> ([], Some e)
      | Inr has_params \<Rightarrow>
          if \<not> has_params then ([], None)
          else
     (case py_getitem record ''eventName'' of
        Inl e \<Rightarrow> ([], Some e)
      | Inr (JStr event_name) \<Rightarrow>
          if event_name = ''CreateBucket'' \<or> event_name = ''PutObject''
          then handle_create \<E> record event_name
          else if event_name = ''PutBucketAcl'' \<or> event_name = ''PutObjectAcl''
          then handle_change \<E> record event_name
          else ([], None)
      | Inr _ \<Rightarrow> ([], None))))"

text \<open>An exception in one record ends the loop: the effects so far stay, the rest of the
  log is not looked at.\<close>

fun dispatch_records :: "env \<Rightarrow> json list \<Rightarrow> outcome" where
  "dispatch_records \<E> [] = ([], None)"
| "dispatch_records \<E> (record # rest) =
     (case dispatch_record \<E> record of
        (tr, Some e) \<Rightarrow> (tr, Some e)
      | (tr, None) \<Rightarrow>
          (case dispatch_records \<E> rest of (tr', st) \<Rightarrow> (tr @ tr', st)))"

text \<open>The part of \<^verbatim>\<open>lambda_handler\<close> after \<^verbatim>\<open>load_json\<close> has returned.\<close>

definition scan_trail :: "env \<Rightarrow> json \<Rightarrow> outcome" where
  "scan_trail \<E> trail_json =
     (case py_in ''Records'' trail_json of
        Inl e \<Rightarrow> ([], Some e)
      | Inr has_records \<Rightarrow>
          if \<not> has_records then ([], None)
          else
     (case py_getitem trail_json ''Records'' of
        Inl e \<Rightarrow> ([], Some e)
      | Inr records \<Rightarrow>
     (case py_iter records of
        Inl e \<Rightarrow> ([], Some e)
      | Inr rs \<Rightarrow> dispatch_records \<E> rs)))"

text \<open>The first loop of \<^verbatim>\<open>lambda_handler\<close>: \<open>bucket\<close> and \<open>key\<close> are local variables
  assigned in the loop body only; the state is \<open>None\<close> while they are unbound.\<close>

definition bucket_of :: "json \<Rightarrow> error + json" where
  "bucket_of items =
     (case py_getitem items ''s3'' of
        Inl e \<Rightarrow> Inl e
      | Inr s \<Rightarrow>
     (case py_getitem s ''bucket'' of
        Inl e \<Rightarrow> Inl e
      | Inr b \<Rightarrow> py_getitem b ''name''))"

definition key_of :: "json \<Rightarrow> error + json" where
  "key_of items =
     (case py_getitem items ''s3'' of
        Inl e \<Rightarrow> Inl e
      | Inr s \<Rightarrow>
     (case py_getitem s ''object'' of
        Inl e \<Rightarrow> Inl e
      | Inr ob \<Rightarrow> py_getitem ob ''key''))"

fun scan_notification :: "json list \<Rightarrow> (json \<times> json) option \<Rightarrow> error + (json \<times> json) option" where
  "scan_notification [] vars = Inr vars"
| "scan_notification (items # rest) vars =
     (case bucket_of items of
        Inl e \<Rightarrow> Inl e
      | Inr bucket \<Rightarrow>
     (case key_of items of
        Inl e \<Rightarrow> Inl e
      | Inr key \<Rightarrow> scan_notification rest (Some (bucket, key))))"

definition lambda_handler :: "env \<Rightarrow> json \<Rightarrow> outcome" where
  "lambda_handler \<E> event =
     (case py_getitem event ''Records'' of
        Inl e \<Rightarrow> ([], Some e)
      | Inr outer \<Rightarrow>
     (case py_iter outer of
        Inl e \<Rightarrow> ([], Some e)
      | Inr items \<Rightarrow>
     (case scan_notification items None of
        Inl e \<Rightarrow> ([], Some e)
      | Inr None \<Rightarrow> ([], Some UnboundLocalError)
      | Inr (Some (bucket, key)) \<Rightarrow>
     (case as_str bucket of
        Inl e \<Rightarrow> ([], Some e)
      | Inr b \<Rightarrow>
     (case as_str key of
        Inl e \<Rightarrow> ([], Some e)
      | Inr k \<Rightarrow>
     (let pre = [Print (''S3 bucket ['' @ b @ ''] object event for ['' @ k @ '']''),
                 GetObject b k]
      in case fetch_log \<E> b k of
           None \<Rightarrow> (pre, Some LoaderFailure)
         | Some trail_json \<Rightarrow>
             (case scan_trail \<E> trail_json of (tr, st) \<Rightarrow> (pre @ tr, st))))))))"

section \<open>Properties named by the specification\<close>

text \<open>
  The definitions of this section follow the wording of the specification, not the code;
  the theorems below compare them with the handlers defined above.
\<close>

fun is_str :: "json \<Rightarrow> bool" where
  "is_str (JStr s) = True"
| "is_str v = False"

fun is_list :: "json \<Rightarrow> bool" where
  "is_list (JArr xs) = True"
| "is_list v = False"

text \<open>The field of a mapping, absent when the value is not a mapping or has no such
  field.\<close>

definition field :: "json \<Rightarrow> string \<Rightarrow> json option" where
  "field v k = (case v of JObj kvs \<Rightarrow> map_of kvs k | _ \<Rightarrow> None)"

text \<open>Canned ACL: some value equals \<^verbatim>\<open>public-read\<close> or \<^verbatim>\<open>public-read-write\<close>
  (read), some value equals \<^verbatim>\<open>public-read-write\<close> (write).\<close>

definition canned_read :: "json list \<Rightarrow> bool" where
  "canned_read vs = (JStr ''public-read'' \<in> set vs \<or> JStr ''public-read-write'' \<in> set vs)"

definition canned_write :: "json list \<Rightarrow> bool" where
  "canned_write vs = (JStr ''public-read-write'' \<in> set vs)"

definition canned_flags :: "(string \<times> json) list \<Rightarrow> bool \<times> bool" where
  "canned_flags ps =
     (case map_of ps ''x-amz-acl'' of
        None \<Rightarrow> (False, False)
      | Some v \<Rightarrow> (canned_read (as_list v), canned_write (as_list v)))"

text \<open>Grant headers: a header field holds a string when it is there, and marks the
  AllUsers group when that string contains the marker.\<close>

definition header_absent_or_string :: "(string \<times> json) list \<Rightarrow> string \<Rightarrow> bool" where
  "header_absent_or_string hs name = (case map_of hs name of None \<Rightarrow> True | Some v \<Rightarrow> is_str v)"

definition header_marks :: "(string \<times> json) list \<Rightarrow> string \<Rightarrow> bool" where
  "header_marks hs name =
     (case map_of hs name of Some (JStr s) \<Rightarrow> sublist all_users s | _ \<Rightarrow> False)"

text \<open>Grant list: a grant counts when its grantee carries a URI containing the marker;
  it grants read with permission \<^verbatim>\<open>READ\<close> or \<^verbatim>\<open>READ_ACP\<close>, write with
  \<^verbatim>\<open>WRITE\<close> or \<^verbatim>\<open>WRITE_ACP\<close>.\<close>

definition all_users_grantee :: "json \<Rightarrow> bool" where
  "all_users_grantee grant =
     (case py_getitem grant ''Grantee'' of
        Inr g \<Rightarrow>
          (case py_getitem g ''URI'' of Inr (JStr uri) \<Rightarrow> sublist all_users uri | _ \<Rightarrow> False)
      | Inl e \<Rightarrow> False)"

definition permission_in :: "json \<Rightarrow> string list \<Rightarrow> bool" where
  "permission_in grant ps =
     (case py_getitem grant ''Permission'' of Inr (JStr p) \<Rightarrow> p \<in> set ps | _ \<Rightarrow> False)"

definition grants_public_read :: "json \<Rightarrow> bool" where
  "grants_public_read grant =
     (all_users_grantee grant \<and> permission_in grant [''READ'', ''READ_ACP''])"

definition grants_public_write :: "json \<Rightarrow> bool" where
  "grants_public_write grant =
     (all_users_grantee grant \<and> permission_in grant [''WRITE'', ''WRITE_ACP''])"

text \<open>A grant as the S3 API writes it: a mapping whose \<^verbatim>\<open>Grantee\<close>, when there, is a
  mapping whose \<^verbatim>\<open>URI\<close>, when there, is a string; a grant to AllUsers has a
  \<^verbatim>\<open>Permission\<close>.\<close>

definition grant_well_shaped :: "json \<Rightarrow> bool" where
  "grant_well_shaped grant =
     (case grant of
        JObj gk \<Rightarrow>
          (case map_of gk ''Grantee'' of
             None \<Rightarrow> True
           | Some (JObj ge) \<Rightarrow>
               (case map_of ge ''URI'' of
                  None \<Rightarrow> True
                | Some (JStr uri) \<Rightarrow> sublist all_users uri \<longrightarrow> map_of gk ''Permission'' \<noteq> None
                | Some _ \<Rightarrow> False)
           | Some _ \<Rightarrow> False)
      | _ \<Rightarrow> False)"

text \<open>Resources: an entry has a type; it is an object-level entry when that type is
  \<^verbatim>\<open>AWS::S3::Object\<close>. The verb of the description is \<^verbatim>\<open>created\<close> for the
  creation-time operations and \<^verbatim>\<open>changed\<close> otherwise.\<close>

definition typed_resource :: "json \<Rightarrow> bool" where
  "typed_resource resource =
     (case py_getitem resource ''type'' of Inr t \<Rightarrow> True | Inl e \<Rightarrow> False)"

definition is_object_resource :: "json \<Rightarrow> bool" where
  "is_object_resource resource = (py_getitem resource ''type'' = Inr (JStr ''AWS::S3::Object''))"

definition description_verb :: "string \<Rightarrow> string" where
  "description_verb event_name =
     (if event_name \<in> {''CreateBucket'', ''PutObject''} then ''created'' else ''changed'')"

text \<open>Notification items: the bucket name of an item is its field
  \<^verbatim>\<open>s3.bucket.name\<close>, its object key the field \<^verbatim>\<open>s3.object.key\<close>; an item names a
  log object when it has both.\<close>

definition item_bucket :: "json \<Rightarrow> json option" where
  "item_bucket item =
     (case field item ''s3'' of
        None \<Rightarrow> None
      | Some s \<Rightarrow> (case field s ''bucket'' of None \<Rightarrow> None | Some b \<Rightarrow> field b ''name''))"

definition item_key :: "json \<Rightarrow> json option" where
  "item_key item =
     (case field item ''s3'' of
        None \<Rightarrow> None
      | Some s \<Rightarrow> (case field s ''object'' of None \<Rightarrow> None | Some ob \<Rightarrow> field ob ''key''))"

definition names_log_object :: "json \<Rightarrow> bool" where
  "names_log_object item = (item_bucket item \<noteq> None \<and> item_key item \<noteq> None)"

text \<open>The traces of the records of a log, one after the other.\<close>

definition traces_of :: "env \<Rightarrow> json list \<Rightarrow> effect list" where
  "traces_of \<E> rs = concat (map (\<lambda>r. fst (dispatch_record \<E> r)) rs)"

definition returns :: "env \<Rightarrow> json \<Rightarrow> bool" where
  "returns \<E> r = (snd (dispatch_record \<E> r) = None)"

fun is_get_object :: "effect \<Rightarrow> bool" where
  "is_get_object (GetObject b k) = True"
| "is_get_object eff = False"








section \<open>Sample records\<close>

definition all_users_uri :: string where
  "all_users_uri = ''http://acs.amazonaws.com/groups/global/AllUsers''"

definition caller :: "(string \<times> json) list" where
  "caller =
     [(''userIdentity'', JObj [(''type'', JStr ''IAMUser''), (''userName'', JStr ''alice'')]),
      (''userAgent'', JStr ''console.amazonaws.com'')]"

definition s3_event :: "string \<Rightarrow> (string \<times> json) list \<Rightarrow> json \<Rightarrow> (string \<times> json) list" where
  "s3_event name who params =
     [(''eventSource'', JStr ''s3.amazonaws.com''), (''eventName'', JStr name)] @ who
       @ [(''requestParameters'', params)]"

definition acl_params :: "json \<Rightarrow> (string \<times> json) list" where
  "acl_params v = [(''bucketName'', JStr ''photos''), (''x-amz-acl'', v)]"

definition acl_record :: "json \<Rightarrow> json" where
  "acl_record v = JObj (s3_event ''CreateBucket'' caller (JObj (acl_params v)))"

definition header_fields :: "(string \<times> json) list" where
  "header_fields = [(''x-amz-grant-read-acp'', JStr (''uri='' @ all_users_uri))]"

definition header_params :: "(string \<times> json) list" where
  "header_params = [(''bucketName'', JStr ''photos''), (''accessControlList'', JObj header_fields)]"

definition header_record :: json where
  "header_record = JObj (s3_event ''PutObject'' caller (JObj header_params))"

definition grant :: "(string \<times> json) list \<Rightarrow> string \<Rightarrow> json" where
  "grant grantee permission = JObj [(''Grantee'', JObj grantee), (''Permission'', JStr permission)]"

definition policy_params :: "json \<Rightarrow> (string \<times> json) list" where
  "policy_params grants =
     [(''bucketName'', JStr ''photos''),
      (''AccessControlPolicy'', JObj [(''AccessControlList'', JObj [(''Grant'', grants)])])]"

definition policy_record :: "json \<Rightarrow> json" where
  "policy_record grants = JObj (s3_event ''PutBucketAcl'' caller (JObj (policy_params grants)))"

definition two_grants :: json where
  "two_grants =
     JArr [grant [(''URI'', JStr all_users_uri)] ''READ'',
           grant [(''ID'', JStr ''75aa57f09aa0c8caeab4f8c24e99d10f8e7faeebf76c078efc7c6caea54ba06a'')]
             ''WRITE'']"

definition reversed_grants :: json where
  "reversed_grants =
     JArr [grant [(''ID'', JStr ''75aa57f09aa0c8caeab4f8c24e99d10f8e7faeebf76c078efc7c6caea54ba06a'')]
             ''WRITE'',
           grant [(''URI'', JStr all_users_uri)] ''READ'']"

text \<open>Request parameters with a canned ACL and one grant header naming AllUsers.\<close>

definition mixed_params :: "json \<Rightarrow> string \<Rightarrow> (string \<times> json) list" where
  "mixed_params v header =
     [(''bucketName'', JStr ''photos''), (''x-amz-acl'', v),
      (''accessControlList'', JObj [(header, JStr (''uri='' @ all_users_uri))])]"

definition mixed_record :: "json \<Rightarrow> string \<Rightarrow> json" where
  "mixed_record v header = JObj (s3_event ''PutObject'' caller (JObj (mixed_params v header)))"

definition s3_resource :: "string \<Rightarrow> string \<Rightarrow> json" where
  "s3_resource type arn = JObj [(''type'', JStr type), (''ARN'', JStr arn)]"

definition object_resources :: "json list" where
  "object_resources =
     [s3_resource ''AWS::S3::Bucket'' ''arn:aws:s3:::photos'',
      s3_resource ''AWS::S3::Object'' ''arn:aws:s3:::photos/cat.jpg'',
      s3_resource ''AWS::S3::Object'' ''arn:aws:s3:::photos/dog.jpg'']"

definition object_acl_fields :: "(string \<times> json) list" where
  "object_acl_fields =
     s3_event ''PutObjectAcl'' caller (JObj [(''bucketName'', JStr ''photos'')])
       @ [(''resources'', JArr object_resources)]"




definition no_user_name_record :: json where
  "no_user_name_record =
     JObj (s3_event ''CreateBucket''
             [(''userIdentity'', JObj [(''type'', JStr ''Root'')]),
              (''userAgent'', JStr ''console.amazonaws.com'')]
             (JObj (acl_params (JStr ''public-read''))))"



text \<open>A record whose request parameters are \<^verbatim>\<open>null\<close>, and a record of another
  service.\<close>

definition null_params_record :: json where
  "null_params_record = JObj (s3_event ''CreateBucket'' caller JNull)"

definition ec2_fields :: "(string \<times> json) list" where
  "ec2_fields =
     [(''eventSource'', JStr ''ec2.amazonaws.com''), (''eventName'', JStr ''RunInstances''),
      (''requestParameters'', JObj [(''instanceType'', JStr ''t2.micro'')])]"

text \<open>A notification with two items, and an environment that holds a log under the second
  one.\<close>

definition log_item :: "string \<Rightarrow> string \<Rightarrow> json" where
  "log_item b k =
     JObj [(''s3'', JObj [(''bucket'', JObj [(''name'', JStr b)]),
                          (''object'', JObj [(''key'', JStr k)])])]"

definition log_items :: "json list" where
  "log_items =
     [log_item ''trail-bucket'' ''logs/1.json.gz'', log_item ''trail-bucket'' ''logs/2.json.gz'']"

definition sample_trail :: json where
  "sample_trail =
     JObj [(''Records'', JArr [acl_record (JStr ''private''), policy_record two_grants])]"

text \<open>A log whose first record makes the composer raise, and an environment that holds it
  under every key.\<close>

definition raising_trail :: json where
  "raising_trail = JObj [(''Records'', JArr [no_user_name_record, policy_record two_grants])]"

definition raising_env :: env where
  "raising_env =
     \<lparr>sns_topic_arn = ''arn:aws:sns:us-east-1:123456789012:alerts'',
      fetch_log = (\<lambda>b k. Some raising_trail),
      publish_ok = (\<lambda>t s m. True),
      str_of = (\<lambda>r. ''record'')\<rparr>"

definition sample_env :: env where
  "sample_env =
     \<lparr>sns_topic_arn = ''arn:aws:sns:us-east-1:123456789012:alerts'',
      fetch_log = (\<lambda>b k. if b = ''trail-bucket'' \<and> k = ''logs/2.json.gz''
                           then Some sample_trail else None),
      publish_ok = (\<lambda>t s m. True),
      str_of = (\<lambda>r. ''record'')\<rparr>"

section \<open>Decisions of Rule A\<close>

lemma scan_acl_headers_eq:
  "scan_acl_headers vs (r, w) = (r \<or> canned_read vs, w \<or> canned_write vs)"
  by (induction vs arbitrary: r w) (auto simp: canned_read_def canned_write_def)

lemma grant_header_string:
  "header_absent_or_string hs name \<Longrightarrow> grant_header (JObj hs) name = Inr (header_marks hs name)"
  by (auto simp: grant_header_def header_absent_or_string_def header_marks_def
      split: option.splits json.splits)

lemma scan_grant_headers_mono:
  "scan_grant_headers acl flags = Inr (r, w) \<Longrightarrow> (fst flags \<longrightarrow> r) \<and> (snd flags \<longrightarrow> w)"
  by (auto simp: scan_grant_headers_def split: sum.splits if_splits)

text \<open>
  C3, as stated: whenever the request parameters hold a canned-ACL field, a sequence
  containing only \<^verbatim>\<open>private\<close> gives the decision (false, false) and the single string
  \<^verbatim>\<open>public-read\<close> gives (true, false). The grant headers are checked after the canned
  ACL and add to the same flags: with a \<^verbatim>\<open>x-amz-grant-read\<close> header naming AllUsers the
  sequence \<^verbatim>\<open>["private"]\<close> gives (true, false), and with a \<^verbatim>\<open>x-amz-grant-write\<close>
  header naming AllUsers the string \<^verbatim>\<open>public-read\<close> gives (true, true).
\<close>

theorem canned_acl_with_headers:
  "handle_create_flags (mixed_record (JArr [JStr ''private'']) ''x-amz-grant-read'')
     = Inr (True, False)
   \<and> handle_create_flags (mixed_record (JStr ''public-read'') ''x-amz-grant-write'')
     = Inr (True, True)"
  by (simp add: mixed_record_def mixed_params_def s3_event_def caller_def handle_create_flags_def
      scan_grant_headers_def grant_header_def all_users_uri_def all_users_def
      sublist_Cons_right)

text \<open>
  C3, amended. When the request parameters of a record routed to \<^verbatim>\<open>handle_create\<close> are
  a mapping with a canned-ACL field \<^verbatim>\<open>x-amz-acl\<close>, the values \<open>vs\<close> of that field are
  scanned: the elements of the field when it is a list, the field itself as the one value
  otherwise. In every decision the handler reaches, a value \<^verbatim>\<open>public-read\<close> sets
  \<open>public_read\<close> and a value \<^verbatim>\<open>public-read-write\<close> sets both flags. When the request
  parameters have no \<^verbatim>\<open>accessControlList\<close>, the handler reaches the decision
  (some value is \<^verbatim>\<open>public-read\<close> or \<^verbatim>\<open>public-read-write\<close>, some value is
  \<^verbatim>\<open>public-read-write\<close>): (false, false) for a sequence containing only
  \<^verbatim>\<open>private\<close>, (true, false) for the single string \<^verbatim>\<open>public-read\<close>, (true, true)
  for \<^verbatim>\<open>public-read-write\<close>.
\<close>

theorem canned_acl_decision:
  assumes "py_getitem record ''requestParameters'' = Inr (JObj ps)"
    and "map_of ps ''x-amz-acl'' = Some v"
    and "v = JArr vs \<or> (\<not> is_list v \<and> vs = [v])"
  shows "(\<forall>r w. handle_create_flags record = Inr (r, w) \<longrightarrow>
            (JStr ''public-read'' \<in> set vs \<longrightarrow> r)
            \<and> (JStr ''public-read-write'' \<in> set vs \<longrightarrow> r \<and> w))
       \<and> (map_of ps ''accessControlList'' = None \<longrightarrow>
            handle_create_flags record =
              Inr (JStr ''public-read'' \<in> set vs \<or> JStr ''public-read-write'' \<in> set vs,
                   JStr ''public-read-write'' \<in> set vs))"
proof -
  have vs: "as_list v = vs"
    using assms(3) by (cases v) auto
  show ?thesis
    using assms(1,2)
    by (auto simp: handle_create_flags_def scan_acl_headers_eq vs canned_read_def
        canned_write_def split: sum.splits dest: scan_grant_headers_mono)
qed

theorem canned_acl_decision_witness:
  "handle_create_flags (acl_record (JStr ''public-read'')) = Inr (True, False)
   \<and> handle_create_flags (acl_record (JStr ''public-read-write'')) = Inr (True, True)
   \<and> handle_create_flags (acl_record (JArr [JStr ''private''])) = Inr (False, False)
   \<and> handle_create_flags (acl_record (JArr [JStr ''private'', JStr ''public-read'']))
       = Inr (True, False)
   \<and> handle_create_flags (acl_record (JArr [JStr ''private'', JStr ''public-read-write'']))
       = Inr (True, True)"
  using
    canned_acl_decision [of "acl_record (JStr ''public-read'')"
      "acl_params (JStr ''public-read'')" "JStr ''public-read''" "[JStr ''public-read'']"]
    canned_acl_decision [of "acl_record (JStr ''public-read-write'')"
      "acl_params (JStr ''public-read-write'')" "JStr ''public-read-write''"
      "[JStr ''public-read-write'']"]
    canned_acl_decision [of "acl_record (JArr [JStr ''private''])"
      "acl_params (JArr [JStr ''private''])" "JArr [JStr ''private'']" "[JStr ''private'']"]
    canned_acl_decision [of "acl_record (JArr [JStr ''private'', JStr ''public-read''])"
      "acl_params (JArr [JStr ''private'', JStr ''public-read''])"
      "JArr [JStr ''private'', JStr ''public-read'']" "[JStr ''private'', JStr ''public-read'']"]
    canned_acl_decision [of "acl_record (JArr [JStr ''private'', JStr ''public-read-write''])"
      "acl_params (JArr [JStr ''private'', JStr ''public-read-write''])"
      "JArr [JStr ''private'', JStr ''public-read-write'']"
      "[JStr ''private'', JStr ''public-read-write'']"]
  by (simp add: acl_record_def acl_params_def s3_event_def caller_def)

text \<open>
  C4. When the request parameters of a record routed to \<^verbatim>\<open>handle_create\<close> hold the
  grant-header mapping \<^verbatim>\<open>accessControlList\<close>, whose header fields hold strings when
  they are there, the four fields are checked one by one: \<open>public_read\<close> is set when
  \<^verbatim>\<open>x-amz-grant-read\<close> or \<^verbatim>\<open>x-amz-grant-read-acp\<close> is there and contains the AllUsers
  marker, \<open>public_write\<close> when \<^verbatim>\<open>x-amz-grant-write\<close> or \<^verbatim>\<open>x-amz-grant-write-acp\<close>
  does; a field that is not there adds nothing; and a \<^verbatim>\<open>x-amz-grant-read-acp\<close> header
  with the marker gives \<open>public_read\<close> whatever the other fields are.
\<close>

theorem grant_headers_decision:
  assumes "py_getitem record ''requestParameters'' = Inr (JObj ps)"
    and "map_of ps ''accessControlList'' = Some (JObj hs)"
    and "list_all (header_absent_or_string hs)
           [''x-amz-grant-read'', ''x-amz-grant-read-acp'', ''x-amz-grant-write'',
            ''x-amz-grant-write-acp'']"
  shows "handle_create_flags record =
           Inr (fst (canned_flags ps) \<or> header_marks hs ''x-amz-grant-read''
                  \<or> header_marks hs ''x-amz-grant-read-acp'',
                snd (canned_flags ps) \<or> header_marks hs ''x-amz-grant-write''
                  \<or> header_marks hs ''x-amz-grant-write-acp'')
       \<and> (header_marks hs ''x-amz-grant-read-acp'' \<longrightarrow>
            (\<exists>w. handle_create_flags record = Inr (True, w)))"
  using assms
  by (auto simp: handle_create_flags_def scan_grant_headers_def grant_header_string
      canned_flags_def scan_acl_headers_eq split: option.splits)

theorem grant_headers_decision_witness:
  "handle_create_flags header_record = Inr (True, False)"
  using grant_headers_decision [of header_record header_params header_fields]
  by (simp add: header_record_def header_params_def header_fields_def s3_event_def caller_def
      header_absent_or_string_def header_marks_def canned_flags_def all_users_uri_def
      all_users_def sublist_Cons_right)

section \<open>Decisions of Rule B\<close>

lemma scan_grant_well_shaped:
  "grant_well_shaped g \<Longrightarrow>
     scan_grant g (r, w) = Inr (r \<or> grants_public_read g, w \<or> grants_public_write g)"
  unfolding grant_well_shaped_def scan_grant_def grants_public_read_def grants_public_write_def
    all_users_grantee_def permission_in_def
  by (auto split: json.splits option.splits)

lemma scan_grants_well_shaped:
  "list_all grant_well_shaped gs \<Longrightarrow>
     scan_grants gs (r, w) =
       Inr (r \<or> list_ex grants_public_read gs, w \<or> list_ex grants_public_write gs)"
  by (induction gs arbitrary: r w) (auto simp: scan_grant_well_shaped)

text \<open>
  C2. When the request parameters of a record routed to \<^verbatim>\<open>handle_change\<close> hold an
  \<^verbatim>\<open>AccessControlPolicy\<close>, the grants under \<^verbatim>\<open>AccessControlList.Grant\<close> are scanned
  and the decision is the disjunction over all of them: for a list of grants,
  \<open>public_read\<close> iff some grant of the list goes to an AllUsers URI with permission
  \<^verbatim>\<open>READ\<close> or \<^verbatim>\<open>READ_ACP\<close>, and \<open>public_write\<close> iff some grant of the list goes to
  an AllUsers URI with permission \<^verbatim>\<open>WRITE\<close> or \<^verbatim>\<open>WRITE_ACP\<close>; a single grant
  decides as the one-element list does; a grant without a URI grantee or with another URI
  adds nothing.
\<close>

theorem grant_list_decision:
  assumes "py_getitem record ''requestParameters'' = Inr (JObj ps)"
    and "map_of ps ''AccessControlPolicy'' = Some (JObj policy)"
    and "map_of policy ''AccessControlList'' = Some (JObj acl)"
    and "map_of acl ''Grant'' = Some grant_list"
  shows "(\<forall>gs. grant_list = JArr gs \<and> list_all grant_well_shaped gs \<longrightarrow>
            handle_change_flags record =
              Inr (list_ex grants_public_read gs, list_ex grants_public_write gs))
       \<and> (grant_well_shaped grant_list \<longrightarrow>
            handle_change_flags record =
              Inr (grants_public_read grant_list, grants_public_write grant_list))"
proof -
  have run: "handle_change_flags record = scan_grants (as_list grant_list) (False, False)"
    using assms by (simp add: handle_change_flags_def grant_list_of_def)
  have "handle_change_flags record =
          Inr (list_ex grants_public_read gs, list_ex grants_public_write gs)"
    if "grant_list = JArr gs" "list_all grant_well_shaped gs" for gs
    using that by (simp add: run scan_grants_well_shaped)
  moreover have "handle_change_flags record =
          Inr (grants_public_read grant_list, grants_public_write grant_list)"
    if "grant_well_shaped grant_list"
  proof -
    from that obtain gk where "grant_list = JObj gk"
      by (cases grant_list) (simp_all add: grant_well_shaped_def)
    then have "as_list grant_list = [grant_list]" by simp
    with that show ?thesis
      using scan_grants_well_shaped [of "[grant_list]" False False] by (simp add: run)
  qed
  ultimately show ?thesis by blast
qed

theorem grant_list_decision_witness:
  "handle_change_flags (policy_record two_grants) = Inr (True, False)
   \<and> handle_change_flags (policy_record reversed_grants) = Inr (True, False)
   \<and> handle_change_flags (policy_record (grant [(''URI'', JStr all_users_uri)] ''WRITE_ACP''))
       = Inr (False, True)"
  using
    grant_list_decision [of "policy_record two_grants" "policy_params two_grants"
      "[(''AccessControlList'', JObj [(''Grant'', two_grants)])]" "[(''Grant'', two_grants)]"
      two_grants]
    grant_list_decision [of "policy_record reversed_grants" "policy_params reversed_grants"
      "[(''AccessControlList'', JObj [(''Grant'', reversed_grants)])]"
      "[(''Grant'', reversed_grants)]" reversed_grants]
    grant_list_decision [of "policy_record (grant [(''URI'', JStr all_users_uri)] ''WRITE_ACP'')"
      "policy_params (grant [(''URI'', JStr all_users_uri)] ''WRITE_ACP'')"
      "[(''AccessControlList'',
         JObj [(''Grant'', grant [(''URI'', JStr all_users_uri)] ''WRITE_ACP'')])]"
      "[(''Grant'', grant [(''URI'', JStr all_users_uri)] ''WRITE_ACP'')]"
      "grant [(''URI'', JStr all_users_uri)] ''WRITE_ACP''"]
  by (simp add: policy_record_def policy_params_def s3_event_def caller_def two_grants_def
      reversed_grants_def grant_def grant_well_shaped_def grants_public_read_def
      grants_public_write_def all_users_grantee_def permission_in_def all_users_uri_def
      all_users_def sublist_Cons_right)

section \<open>Strings of the alert\<close>

text \<open>
  C7. For a decision with at least one flag set, the operations string is \<^verbatim>\<open>READ\<close>
  when only \<open>public_read\<close> is set, \<^verbatim>\<open>WRITE\<close> when only \<open>public_write\<close> is set and
  \<^verbatim>\<open>READ and WRITE\<close> when both are; it is never empty.
\<close>

theorem operations_string:
  "public_read \<or> public_write \<Longrightarrow>
     get_public_access public_write public_read =
       (if public_read \<and> public_write then ''READ and WRITE''
        else if public_read then ''READ'' else ''WRITE'')
     \<and> get_public_access public_write public_read \<noteq> []"
  by (auto simp: get_public_access_def)

theorem operations_string_witness:
  "get_public_access True True = ''READ and WRITE''
   \<and> get_public_access False True = ''READ''
   \<and> get_public_access True False = ''WRITE''"
  using operations_string [of True True] operations_string [of True False]
    operations_string [of False True]
  by simp

text \<open>
  C9. For a record with a user agent, the invoke form is \<^verbatim>\<open>Console\<close> when the user
  agent is exactly \<^verbatim>\<open>signin.amazonaws.com\<close> or \<^verbatim>\<open>console.amazonaws.com\<close>,
  \<^verbatim>\<open>Lambda\<close> when it is exactly \<^verbatim>\<open>lambda.amazonaws.com\<close>, and \<^verbatim>\<open>API\<close> for every
  other user agent: one of three values.
\<close>

theorem invoke_form_cases:
  "py_getitem record ''userAgent'' = Inr ua \<Longrightarrow>
     get_invoke_form record =
       Inr (if ua = JStr ''signin.amazonaws.com'' \<or> ua = JStr ''console.amazonaws.com''
            then ''Console''
            else if ua = JStr ''lambda.amazonaws.com'' then ''Lambda'' else ''API'')
     \<and> get_invoke_form record \<in> {Inr ''Console'', Inr ''Lambda'', Inr ''API''}"
  by (simp add: get_invoke_form_def)

theorem invoke_form_cases_witness:
  "get_invoke_form (JObj [(''userAgent'', JStr ''signin.amazonaws.com'')]) = Inr ''Console''
   \<and> get_invoke_form (JObj [(''userAgent'', JStr ''console.amazonaws.com'')]) = Inr ''Console''
   \<and> get_invoke_form (JObj [(''userAgent'', JStr ''lambda.amazonaws.com'')]) = Inr ''Lambda''
   \<and> get_invoke_form (JObj [(''userAgent'', JStr ''[aws-cli/1.16.0]'')]) = Inr ''API''"
  using
    invoke_form_cases [of "JObj [(''userAgent'', JStr ''signin.amazonaws.com'')]"
      "JStr ''signin.amazonaws.com''"]
    invoke_form_cases [of "JObj [(''userAgent'', JStr ''console.amazonaws.com'')]"
      "JStr ''console.amazonaws.com''"]
    invoke_form_cases [of "JObj [(''userAgent'', JStr ''lambda.amazonaws.com'')]"
      "JStr ''lambda.amazonaws.com''"]
    invoke_form_cases [of "JObj [(''userAgent'', JStr ''[aws-cli/1.16.0]'')]"
      "JStr ''[aws-cli/1.16.0]''"]
  by simp

lemma scan_resources_find:
  "list_all typed_resource rs \<Longrightarrow>
     scan_resources rs =
       (case find is_object_resource rs of None \<Rightarrow> Inr JNull | Some r \<Rightarrow> py_getitem r ''ARN'')"
  by (induction rs) (auto simp: typed_resource_def is_object_resource_def split: sum.splits)

lemma get_object_arn_find:
  assumes "case map_of kvs ''resources'' of None \<Rightarrow> rs = [] | Some v \<Rightarrow> v = JArr rs"
    and "list_all typed_resource rs"
  shows "get_object_arn (JObj kvs) =
           (case find is_object_resource rs of None \<Rightarrow> Inr JNull | Some r \<Rightarrow> py_getitem r ''ARN'')"
  using assms by (auto simp: get_object_arn_def scan_resources_find split: option.splits)

text \<open>
  C8. The resource description starts with \<^verbatim>\<open>created\<close> for \<^verbatim>\<open>CreateBucket\<close> and
  \<^verbatim>\<open>PutObject\<close> and with \<^verbatim>\<open>changed\<close> for the ACL changes. The record's resources are
  scanned in order for the first entry of type \<^verbatim>\<open>AWS::S3::Object\<close>: when there is one,
  with identifier \<open>arn\<close>, the description goes on with \<open>arn\<close>, \<^verbatim>\<open>at bucket\<close> and the
  bucket name; when there is none, or the record has no resources field, it goes on with
  \<^verbatim>\<open>bucket\<close> and the bucket name.
\<close>

theorem resource_description:
  assumes "case map_of kvs ''resources'' of None \<Rightarrow> rs = [] | Some v \<Rightarrow> v = JArr rs"
    and "list_all typed_resource rs"
  shows "case find is_object_resource rs of
           None \<Rightarrow>
             get_object_arn (JObj kvs) = Inr JNull
             \<and> get_resource_access event_name (JStr bucket) JNull
                 = Inr (description_verb event_name @ '' bucket '' @ bucket)
         | Some r \<Rightarrow>
             \<forall>arn. py_getitem r ''ARN'' = Inr (JStr arn) \<longrightarrow>
               get_object_arn (JObj kvs) = Inr (JStr arn)
               \<and> get_resource_access event_name (JStr bucket) (JStr arn)
                   = Inr (description_verb event_name @ '' '' @ arn @ '' at bucket '' @ bucket)"
  using get_object_arn_find [OF assms]
  by (auto simp: get_resource_access_def description_verb_def split: option.splits)

theorem resource_description_witness:
  "get_object_arn (JObj object_acl_fields) = Inr (JStr ''arn:aws:s3:::photos/cat.jpg'')
   \<and> get_resource_access ''PutObjectAcl'' (JStr ''photos'') (JStr ''arn:aws:s3:::photos/cat.jpg'')
       = Inr ''changed arn:aws:s3:::photos/cat.jpg at bucket photos''
   \<and> get_object_arn (acl_record (JStr ''public-read'')) = Inr JNull
   \<and> get_resource_access ''CreateBucket'' (JStr ''photos'') JNull = Inr ''created bucket photos''"
  using
    resource_description [where kvs = object_acl_fields and rs = object_resources
      and event_name = "''PutObjectAcl''" and bucket = "''photos''"]
    resource_description [where kvs = "s3_event ''CreateBucket'' caller (JObj (acl_params (JStr ''public-read'')))"
      and rs = "[]" and event_name = "''CreateBucket''" and bucket = "''photos''"]
  by (simp add: object_acl_fields_def object_resources_def s3_resource_def s3_event_def
      caller_def acl_record_def acl_params_def typed_resource_def is_object_resource_def
      description_verb_def)


section \<open>Fields read without a presence test\<close>






lemma field_getitem:
  "field v k = Some x \<Longrightarrow> py_getitem v k = Inr x"
  by (cases v) (simp_all add: field_def)






section \<open>Routing of records\<close>

text \<open>
  C6, as stated: a record whose request parameters are empty is skipped with no side
  effect. The loop tests only that the key \<^verbatim>\<open>requestParameters\<close> is in the record: a
  \<^verbatim>\<open>CreateBucket\<close> record of the storage service whose request parameters are
  \<^verbatim>\<open>null\<close> is routed to \<^verbatim>\<open>handle_create\<close>, which raises \<^verbatim>\<open>TypeError\<close>.
\<close>

theorem null_params_routed:
  "dispatch_record sample_env null_params_record
     = handle_create sample_env null_params_record ''CreateBucket''
   \<and> dispatch_record sample_env null_params_record = ([], Some TypeError)
   \<and> dispatch_record sample_env null_params_record \<noteq> ([], None)"
  by (simp add: null_params_record_def s3_event_def caller_def dispatch_record_def
      handle_create_def handle_create_flags_def)

text \<open>
  C6, amended. For every record of the log that is a mapping with an \<^verbatim>\<open>eventSource\<close>
  field: a record of another source than \<^verbatim>\<open>s3.amazonaws.com\<close>, or without the key
  \<^verbatim>\<open>requestParameters\<close>, is skipped with no effect; a record of that source with the
  key, whatever its value, and with an \<^verbatim>\<open>eventName\<close> field goes to
  \<^verbatim>\<open>handle_create\<close> when the name is \<^verbatim>\<open>CreateBucket\<close> or \<^verbatim>\<open>PutObject\<close>, to
  \<^verbatim>\<open>handle_change\<close> when it is \<^verbatim>\<open>PutBucketAcl\<close> or \<^verbatim>\<open>PutObjectAcl\<close>, and is
  skipped with no effect for every other name; and each handler calls the composer, with
  the record, the event name and the decision, iff its classifier reaches a decision with
  \<open>public_read\<close> or \<open>public_write\<close> set: with both flags unset it returns with no
  effect, and an exception of the classifier ends it with no effect.
\<close>

theorem dispatch_routing:
  assumes "map_of kvs ''eventSource'' = Some source"
  shows "(source \<noteq> JStr ''s3.amazonaws.com'' \<or> map_of kvs ''requestParameters'' = None \<longrightarrow>
            dispatch_record \<E> (JObj kvs) = ([], None))
       \<and> (source = JStr ''s3.amazonaws.com'' \<and> map_of kvs ''requestParameters'' \<noteq> None \<longrightarrow>
            (\<forall>name. map_of kvs ''eventName'' = Some name \<longrightarrow>
               dispatch_record \<E> (JObj kvs) =
                 (if name = JStr ''CreateBucket'' then handle_create \<E> (JObj kvs) ''CreateBucket''
                  else if name = JStr ''PutObject'' then handle_create \<E> (JObj kvs) ''PutObject''
                  else if name = JStr ''PutBucketAcl''
                  then handle_change \<E> (JObj kvs) ''PutBucketAcl''
                  else if name = JStr ''PutObjectAcl''
                  then handle_change \<E> (JObj kvs) ''PutObjectAcl''
                  else ([], None))))
       \<and> (\<forall>n r w. handle_create_flags (JObj kvs) = Inr (r, w) \<longrightarrow>
            handle_create \<E> (JObj kvs) n =
              (if r \<or> w then publish_alert \<E> (JObj kvs) n w r else ([], None)))
       \<and> (\<forall>n r w. handle_change_flags (JObj kvs) = Inr (r, w) \<longrightarrow>
            handle_change \<E> (JObj kvs) n =
              (if r \<or> w then publish_alert \<E> (JObj kvs) n w r else ([], None)))
       \<and> (\<forall>n e. handle_create_flags (JObj kvs) = Inl e \<longrightarrow>
            handle_create \<E> (JObj kvs) n = ([], Some e))
       \<and> (\<forall>n e. handle_change_flags (JObj kvs) = Inl e \<longrightarrow>
            handle_change \<E> (JObj kvs) n = ([], Some e))"
proof -
  have "dispatch_record \<E> (JObj kvs) =
          (if name = JStr ''CreateBucket'' then handle_create \<E> (JObj kvs) ''CreateBucket''
           else if name = JStr ''PutObject'' then handle_create \<E> (JObj kvs) ''PutObject''
           else if name = JStr ''PutBucketAcl'' then handle_change \<E> (JObj kvs) ''PutBucketAcl''
           else if name = JStr ''PutObjectAcl'' then handle_change \<E> (JObj kvs) ''PutObjectAcl''
           else ([], None))"
    if "source = JStr ''s3.amazonaws.com''" "map_of kvs ''requestParameters'' \<noteq> None"
      "map_of kvs ''eventName'' = Some name" for name
    using assms that by (cases name) (auto simp: dispatch_record_def)
  moreover have "dispatch_record \<E> (JObj kvs) = ([], None)"
    if "source \<noteq> JStr ''s3.amazonaws.com'' \<or> map_of kvs ''requestParameters'' = None"
    using assms that by (auto simp: dispatch_record_def)
  ultimately show ?thesis
    by (simp add: handle_create_def handle_change_def)
qed

theorem dispatch_routing_witness:
  "dispatch_record sample_env (policy_record two_grants)
     = handle_change sample_env (policy_record two_grants) ''PutBucketAcl''
   \<and> handle_change sample_env (policy_record two_grants) ''PutBucketAcl''
     = publish_alert sample_env (policy_record two_grants) ''PutBucketAcl'' False True
   \<and> dispatch_record sample_env (acl_record (JStr ''private'')) = ([], None)
   \<and> dispatch_record sample_env (JObj ec2_fields) = ([], None)"
proof -
  have flags: "handle_change_flags (policy_record two_grants) = Inr (True, False)"
    by (simp add: policy_record_def policy_params_def s3_event_def caller_def two_grants_def
        grant_def handle_change_flags_def grant_list_of_def scan_grant_def all_users_uri_def
        all_users_def sublist_Cons_right)
  have quiet: "handle_create_flags (acl_record (JStr ''private'')) = Inr (False, False)"
    by (simp add: acl_record_def acl_params_def s3_event_def caller_def handle_create_flags_def)
  have s3: "map_of (s3_event name caller ps) ''eventSource'' = Some (JStr ''s3.amazonaws.com'')"
    and has: "map_of (s3_event name caller ps) ''requestParameters'' \<noteq> None"
    and name: "map_of (s3_event name caller ps) ''eventName'' = Some (JStr name)" for name ps
    by (simp_all add: s3_event_def caller_def)
  have ec2: "map_of ec2_fields ''eventSource'' = Some (JStr ''ec2.amazonaws.com'')"
    by (simp add: ec2_fields_def)
  note p = dispatch_routing [OF s3 [of "''PutBucketAcl''" "JObj (policy_params two_grants)"],
      where \<E> = sample_env]
  note a = dispatch_routing [OF s3 [of "''CreateBucket''" "JObj (acl_params (JStr ''private''))"],
      where \<E> = sample_env]
  note e = dispatch_routing [OF ec2, where \<E> = sample_env]
  have "dispatch_record sample_env (policy_record two_grants)
          = handle_change sample_env (policy_record two_grants) ''PutBucketAcl''"
    using p has name unfolding policy_record_def by simp
  moreover have "handle_change sample_env (policy_record two_grants) ''PutBucketAcl''
          = publish_alert sample_env (policy_record two_grants) ''PutBucketAcl'' False True"
    using p [THEN conjunct2, THEN conjunct2, THEN conjunct2, THEN conjunct1, rule_format,
        OF flags [unfolded policy_record_def], of "''PutBucketAcl''"]
    unfolding policy_record_def by simp
  moreover have "dispatch_record sample_env (acl_record (JStr ''private'')) = ([], None)"
    using a has name quiet unfolding acl_record_def
    by (simp add: handle_create_def)
  moreover have "dispatch_record sample_env (JObj ec2_fields) = ([], None)"
    using e by simp
  ultimately show ?thesis by simp
qed

section \<open>Notification and log fetch\<close>

lemma publish_alert_no_fetch:
  "filter is_get_object (fst (publish_alert \<E> record n w r)) = []"
  by (auto simp: publish_alert_def Let_def split: sum.splits)

lemma handle_create_no_fetch:
  "filter is_get_object (fst (handle_create \<E> record n)) = []"
  by (auto simp: handle_create_def publish_alert_no_fetch split: sum.splits)

lemma handle_change_no_fetch:
  "filter is_get_object (fst (handle_change \<E> record n)) = []"
  by (auto simp: handle_change_def publish_alert_no_fetch split: sum.splits)

lemma dispatch_record_no_fetch:
  "filter is_get_object (fst (dispatch_record \<E> record)) = []"
  by (auto simp: dispatch_record_def handle_create_no_fetch handle_change_no_fetch
      split: sum.splits json.splits)

lemma dispatch_records_no_fetch:
  "filter is_get_object (fst (dispatch_records \<E> rs)) = []"
proof (induction rs)
  case Nil
  show ?case by simp
next
  case (Cons r rs)
  have "filter is_get_object (fst (dispatch_record \<E> r)) = []"
    by (rule dispatch_record_no_fetch)
  with Cons show ?case
    by (auto split: prod.splits option.splits)
qed

lemma scan_trail_no_fetch:
  "filter is_get_object (fst (scan_trail \<E> trail)) = []"
  by (auto simp: scan_trail_def dispatch_records_no_fetch split: sum.splits)

lemma item_bucket_of:
  "item_bucket item = Some b \<Longrightarrow> bucket_of item = Inr b"
  by (auto simp: item_bucket_def bucket_of_def field_getitem split: option.splits)

lemma item_key_of:
  "item_key item = Some k \<Longrightarrow> key_of item = Inr k"
  by (auto simp: item_key_def key_of_def field_getitem split: option.splits)

lemma scan_notification_last:
  "list_all names_log_object items \<Longrightarrow> items \<noteq> [] \<Longrightarrow>
   item_bucket (last items) = Some b \<Longrightarrow> item_key (last items) = Some k \<Longrightarrow>
   scan_notification items vars = Inr (Some (b, k))"
proof (induction items arbitrary: vars)
  case Nil
  then show ?case by simp
next
  case (Cons it items)
  from Cons.prems(1) obtain b0 k0 where
    it: "bucket_of it = Inr b0" "key_of it = Inr k0"
    and it': "item_bucket it = Some b0" "item_key it = Some k0"
    by (auto simp: names_log_object_def item_bucket_of item_key_of)
  show ?case
  proof (cases "items = []")
    case True
    with Cons.prems it it' show ?thesis by simp
  next
    case False
    with Cons.prems have "scan_notification items (Some (b0, k0)) = Inr (Some (b, k))"
      by (intro Cons.IH) auto
    with it show ?thesis by simp
  qed
qed

text \<open>The loop over the records of the log: every record is dispatched, in order, as
  long as none raises; the first record that raises ends the loop.\<close>

lemma dispatch_records_all:
  "list_all (returns \<E>) rs \<Longrightarrow> dispatch_records \<E> rs = (traces_of \<E> rs, None)"
  by (induction rs) (auto simp: returns_def traces_of_def split: prod.splits option.splits)

lemma dispatch_records_stop:
  "list_all (returns \<E>) before \<Longrightarrow> snd (dispatch_record \<E> r) = Some e \<Longrightarrow>
   dispatch_records \<E> (before @ r # rest) = (traces_of \<E> before @ fst (dispatch_record \<E> r), Some e)"
  by (induction before) (auto simp: returns_def traces_of_def split: prod.splits option.splits)

text \<open>A \<^verbatim>\<open>PutBucketAcl\<close> record with one \<^verbatim>\<open>READ\<close> grant to AllUsers: one alert, naming
  \<^verbatim>\<open>READ\<close> and the bucket. A \<^verbatim>\<open>CreateBucket\<close> record with a private ACL: nothing. A
  public \<^verbatim>\<open>CreateBucket\<close> by an identity without a user name: \<^verbatim>\<open>KeyError\<close>.\<close>

lemma put_bucket_acl_alert:
  "dispatch_record sample_env (policy_record two_grants) =
     ([Print ''Found public S3 event [PutBucketAcl] on record [record]'',
       Print (''Alert [User alice via Console call has just changed bucket photos with READ ''
              @ ''public access] sent to SNS topic [arn:aws:sns:us-east-1:123456789012:alerts]''),
       Publish ''arn:aws:sns:us-east-1:123456789012:alerts'' ''Public S3 bucket/object alert''
         ''User alice via Console call has just changed bucket photos with READ public access''],
      None)"
  by (simp add: dispatch_record_def policy_record_def policy_params_def s3_event_def caller_def
      handle_change_def handle_change_flags_def grant_list_of_def two_grants_def grant_def
      scan_grant_def all_users_uri_def all_users_def sublist_Cons_right publish_alert_def
      get_invoke_form_def get_object_arn_def get_resource_access_def get_public_access_def
      sns_message_def sample_env_def sns_subject_def Let_def)

lemma private_acl_quiet:
  "dispatch_record sample_env (acl_record (JStr ''private'')) = ([], None)"
  by (simp add: dispatch_record_def acl_record_def acl_params_def s3_event_def caller_def
      handle_create_def handle_create_flags_def)

lemma no_user_name_raises:
  "dispatch_record raising_env no_user_name_record = ([], Some KeyError)"
  by (simp add: dispatch_record_def no_user_name_record_def acl_params_def s3_event_def
      handle_create_def handle_create_flags_def publish_alert_def)

text \<open>
  C5, as stated: the run evaluates every record inside the fetched log. An exception in
  one record ends the run: in a log whose first record is a public \<^verbatim>\<open>CreateBucket\<close> by
  an identity without a user name and whose second record is a \<^verbatim>\<open>PutBucketAcl\<close> that
  grants \<^verbatim>\<open>READ\<close> to AllUsers, the first record raises \<^verbatim>\<open>KeyError\<close> and the second,
  which alone gives an alert, is never evaluated.
\<close>

theorem raising_record_ends_scan:
  "lambda_handler raising_env (JObj [(''Records'', JArr log_items)]) =
     ([Print ''S3 bucket [trail-bucket] object event for [logs/2.json.gz]'',
       GetObject ''trail-bucket'' ''logs/2.json.gz''],
      Some KeyError)
   \<and> dispatch_record raising_env (policy_record two_grants) =
     ([Print ''Found public S3 event [PutBucketAcl] on record [record]'',
       Print (''Alert [User alice via Console call has just changed bucket photos with READ ''
              @ ''public access] sent to SNS topic [arn:aws:sns:us-east-1:123456789012:alerts]''),
       Publish ''arn:aws:sns:us-east-1:123456789012:alerts'' ''Public S3 bucket/object alert''
         ''User alice via Console call has just changed bucket photos with READ public access''],
      None)"
proof -
  have fetch: "fetch_log raising_env b k = Some raising_trail" for b k
    by (simp add: raising_env_def)
  have "lambda_handler raising_env (JObj [(''Records'', JArr log_items)]) =
     ([Print ''S3 bucket [trail-bucket] object event for [logs/2.json.gz]'',
       GetObject ''trail-bucket'' ''logs/2.json.gz''],
      Some KeyError)"
    by (simp add: lambda_handler_def log_items_def log_item_def bucket_of_def key_of_def
        fetch raising_trail_def scan_trail_def no_user_name_raises)
  moreover have "dispatch_record raising_env (policy_record two_grants) =
     ([Print ''Found public S3 event [PutBucketAcl] on record [record]'',
       Print (''Alert [User alice via Console call has just changed bucket photos with READ ''
              @ ''public access] sent to SNS topic [arn:aws:sns:us-east-1:123456789012:alerts]''),
       Publish ''arn:aws:sns:us-east-1:123456789012:alerts'' ''Public S3 bucket/object alert''
         ''User alice via Console call has just changed bucket photos with READ public access''],
      None)"
    by (simp add: dispatch_record_def policy_record_def policy_params_def s3_event_def
        caller_def handle_change_def handle_change_flags_def grant_list_of_def two_grants_def
        grant_def scan_grant_def all_users_uri_def all_users_def sublist_Cons_right
        publish_alert_def get_invoke_form_def get_object_arn_def get_resource_access_def
        get_public_access_def sns_message_def raising_env_def sns_subject_def Let_def)
  ultimately show ?thesis by (rule conjI)
qed

text \<open>
  C5, amended. For a notification whose outer \<^verbatim>\<open>Records\<close> is a non-empty list of items
  that each have a bucket name \<^verbatim>\<open>s3.bucket.name\<close> and an object key
  \<^verbatim>\<open>s3.object.key\<close>, strings in the last item, \<^verbatim>\<open>lambda_handler\<close> fetches exactly
  one log object, the one named by the last item: the only \<^verbatim>\<open>get_object\<close> call of the
  run has that bucket and key, so the objects of earlier items are never fetched. When the
  fetch fails the run ends there. When it gives a mapping whose \<^verbatim>\<open>Records\<close> is a list,
  the records of that one log are dispatched in order: all of them when none raises, and
  up to and including the first one that raises otherwise, the run ending with its
  exception and the records after it never evaluated.
\<close>

theorem one_log_fetched:
  assumes "map_of kvs ''Records'' = Some (JArr items)"
    and "items \<noteq> []"
    and "list_all names_log_object items"
    and "item_bucket (last items) = Some (JStr b)"
    and "item_key (last items) = Some (JStr k)"
  shows "filter is_get_object (fst (lambda_handler \<E> (JObj kvs))) = [GetObject b k]
       \<and> (fetch_log \<E> b k = None \<longrightarrow>
            lambda_handler \<E> (JObj kvs) =
              ([Print (''S3 bucket ['' @ b @ ''] object event for ['' @ k @ '']''), GetObject b k],
               Some LoaderFailure))
       \<and> (\<forall>tk rs. fetch_log \<E> b k = Some (JObj tk) \<and> map_of tk ''Records'' = Some (JArr rs)
              \<and> list_all (returns \<E>) rs \<longrightarrow>
            lambda_handler \<E> (JObj kvs) =
              ([Print (''S3 bucket ['' @ b @ ''] object event for ['' @ k @ '']''), GetObject b k]
                 @ traces_of \<E> rs,
               None))
       \<and> (\<forall>tk before r rest e.
              fetch_log \<E> b k = Some (JObj tk)
              \<and> map_of tk ''Records'' = Some (JArr (before @ r # rest))
              \<and> list_all (returns \<E>) before \<and> snd (dispatch_record \<E> r) = Some e \<longrightarrow>
            lambda_handler \<E> (JObj kvs) =
              ([Print (''S3 bucket ['' @ b @ ''] object event for ['' @ k @ '']''), GetObject b k]
                 @ traces_of \<E> before @ fst (dispatch_record \<E> r),
               Some e))"
proof -
  have scan: "scan_notification items None = Inr (Some (JStr b, JStr k))"
    using assms by (intro scan_notification_last) auto
  have run: "lambda_handler \<E> (JObj kvs) =
      (case fetch_log \<E> b k of
         None \<Rightarrow>
           ([Print (''S3 bucket ['' @ b @ ''] object event for ['' @ k @ '']''), GetObject b k],
            Some LoaderFailure)
       | Some trail \<Rightarrow>
           ([Print (''S3 bucket ['' @ b @ ''] object event for ['' @ k @ '']''), GetObject b k]
              @ fst (scan_trail \<E> trail),
            snd (scan_trail \<E> trail)))"
    using assms(1) scan by (simp add: lambda_handler_def split: option.splits prod.splits)
  have one: "filter is_get_object (fst (lambda_handler \<E> (JObj kvs))) = [GetObject b k]"
    by (simp add: run scan_trail_no_fetch split: option.splits)
  have trail: "scan_trail \<E> (JObj tk) = dispatch_records \<E> rs"
    if "map_of tk ''Records'' = Some (JArr rs)" for tk rs
    using that by (simp add: scan_trail_def)
  have all: "lambda_handler \<E> (JObj kvs) =
      ([Print (''S3 bucket ['' @ b @ ''] object event for ['' @ k @ '']''), GetObject b k]
         @ traces_of \<E> rs, None)"
    if "fetch_log \<E> b k = Some (JObj tk)" "map_of tk ''Records'' = Some (JArr rs)"
      "list_all (returns \<E>) rs" for tk rs
    using that by (simp add: run trail dispatch_records_all)
  have stop: "lambda_handler \<E> (JObj kvs) =
      ([Print (''S3 bucket ['' @ b @ ''] object event for ['' @ k @ '']''), GetObject b k]
         @ traces_of \<E> before @ fst (dispatch_record \<E> r), Some e)"
    if "fetch_log \<E> b k = Some (JObj tk)" "map_of tk ''Records'' = Some (JArr (before @ r # rest))"
      "list_all (returns \<E>) before" "snd (dispatch_record \<E> r) = Some e" for tk before r rest e
    using that by (simp add: run trail dispatch_records_stop)
  have none: "lambda_handler \<E> (JObj kvs) =
      ([Print (''S3 bucket ['' @ b @ ''] object event for ['' @ k @ '']''), GetObject b k],
       Some LoaderFailure)"
    if "fetch_log \<E> b k = None"
    using that by (simp add: run)
  from one none all stop show ?thesis by blast
qed

theorem one_log_fetched_witness:
  "filter is_get_object (fst (lambda_handler sample_env (JObj [(''Records'', JArr log_items)])))
     = [GetObject ''trail-bucket'' ''logs/2.json.gz'']
   \<and> lambda_handler sample_env (JObj [(''Records'', JArr log_items)]) =
       ([Print ''S3 bucket [trail-bucket] object event for [logs/2.json.gz]'',
         GetObject ''trail-bucket'' ''logs/2.json.gz'',
         Print ''Found public S3 event [PutBucketAcl] on record [record]'',
         Print (''Alert [User alice via Console call has just changed bucket photos with READ ''
                @ ''public access] sent to SNS topic [arn:aws:sns:us-east-1:123456789012:alerts]''),
         Publish ''arn:aws:sns:us-east-1:123456789012:alerts'' ''Public S3 bucket/object alert''
           ''User alice via Console call has just changed bucket photos with READ public access''],
        None)
   \<and> lambda_handler raising_env (JObj [(''Records'', JArr log_items)]) =
       ([Print ''S3 bucket [trail-bucket] object event for [logs/2.json.gz]'',
         GetObject ''trail-bucket'' ''logs/2.json.gz''],
        Some KeyError)"
proof -
  have h: "map_of [(''Records'', JArr log_items)] ''Records'' = Some (JArr log_items)"
    "log_items \<noteq> []" "list_all names_log_object log_items"
    "item_bucket (last log_items) = Some (JStr ''trail-bucket'')"
    "item_key (last log_items) = Some (JStr ''logs/2.json.gz'')"
    by (simp_all add: log_items_def log_item_def names_log_object_def item_bucket_def
        item_key_def field_def)
  have f: "fetch_log sample_env ''trail-bucket'' ''logs/2.json.gz''
             = Some (JObj [(''Records'', JArr [acl_record (JStr ''private''), policy_record two_grants])])"
    by (simp add: sample_env_def sample_trail_def)
  have g: "fetch_log raising_env ''trail-bucket'' ''logs/2.json.gz''
             = Some (JObj [(''Records'', JArr ([] @ no_user_name_record # [policy_record two_grants]))])"
    by (simp add: raising_env_def raising_trail_def)
  have quiet: "list_all (returns sample_env) [acl_record (JStr ''private''), policy_record two_grants]"
    by (simp add: returns_def private_acl_quiet put_bucket_acl_alert)
  note t = one_log_fetched [OF h, where \<E> = sample_env]
  note u = one_log_fetched [OF h, where \<E> = raising_env]
  from t have "filter is_get_object
      (fst (lambda_handler sample_env (JObj [(''Records'', JArr log_items)])))
        = [GetObject ''trail-bucket'' ''logs/2.json.gz'']"
    by (rule conjunct1)
  moreover have "lambda_handler sample_env (JObj [(''Records'', JArr log_items)]) =
       ([Print ''S3 bucket [trail-bucket] object event for [logs/2.json.gz]'',
         GetObject ''trail-bucket'' ''logs/2.json.gz'',
         Print ''Found public S3 event [PutBucketAcl] on record [record]'',
         Print (''Alert [User alice via Console call has just changed bucket photos with READ ''
                @ ''public access] sent to SNS topic [arn:aws:sns:us-east-1:123456789012:alerts]''),
         Publish ''arn:aws:sns:us-east-1:123456789012:alerts'' ''Public S3 bucket/object alert''
           ''User alice via Console call has just changed bucket photos with READ public access''],
        None)"
    using t [THEN conjunct2, THEN conjunct2, THEN conjunct1, rule_format, OF conjI [OF f conjI [OF _ quiet]]]
    by (simp add: traces_of_def private_acl_quiet put_bucket_acl_alert)
  moreover have "lambda_handler raising_env (JObj [(''Records'', JArr log_items)]) =
       ([Print ''S3 bucket [trail-bucket] object event for [logs/2.json.gz]'',
         GetObject ''trail-bucket'' ''logs/2.json.gz''],
        Some KeyError)"
    using u [THEN conjunct2, THEN conjunct2, THEN conjunct2, rule_format,
        of _ "[]" no_user_name_record "[policy_record two_grants]" KeyError] g
    by (simp add: traces_of_def no_user_name_raises)
  ultimately show ?thesis by simp
qed

text \<open>
  C10. A notification whose outer \<^verbatim>\<open>Records\<close> sequence is empty does not pass
  silently: \<^verbatim>\<open>lambda_handler\<close> fails with an unbound-variable error, since \<open>bucket\<close>
  and \<open>key\<close> are assigned only inside the loop; a notification without a \<^verbatim>\<open>Records\<close>
  key fails with a key-lookup error. In both cases nothing is printed and no log is
  fetched.
\<close>

theorem empty_notification_fails:
  "(map_of kvs ''Records'' = Some outer \<and> py_iter outer = Inr [] \<longrightarrow>
      lambda_handler \<E> (JObj kvs) = ([], Some UnboundLocalError))
   \<and> (map_of kvs ''Records'' = None \<longrightarrow> lambda_handler \<E> (JObj kvs) = ([], Some KeyError))"
  by (simp add: lambda_handler_def)

theorem empty_notification_fails_witness:
  "lambda_handler sample_env (JObj [(''Records'', JArr [])]) = ([], Some UnboundLocalError)
   \<and> lambda_handler sample_env (JObj []) = ([], Some KeyError)"
  using empty_notification_fails [of "[(''Records'', JArr [])]" "JArr []" sample_env]
    empty_notification_fails [of "[]" "JArr []" sample_env]
  by simp

end
